theory Spec2Isabelle
  imports Main
begin

section \<open>Errors\<close>

text \<open>
  Go's \<open>error\<close> is an interface value; \<open>nil\<close> is "no error", so a returned error is an
  \<open>error option\<close>. The two package-level error variables that the source files return are
  constructors of their own. \<open>EndOfStream\<close>, \<open>TransportError\<close>, \<open>DecodeError\<close> (with
  the offending raw payload) and \<open>ClosedStreamError\<close> are the four kinds of the
  specification's error taxonomy for stream readers. Every other error (JSON, request
  construction, the reasoning validator, an injected reader's own) is \<open>OtherError\<close> with
  its message.
\<close>

datatype error =
    ErrModerationInvalidModel
  | ErrChatCompletionInvalidModel
  | EndOfStream
  | TransportError
  | DecodeError string
  | ClosedStreamError
  | OtherError string

section \<open>moderation.go\<close>

subsection \<open>Constants\<close>

definition ModerationOmniLatest :: string where
  "ModerationOmniLatest = ''omni-moderation-latest''"

definition ModerationOmni20240926 :: string where
  "ModerationOmni20240926 = ''omni-moderation-2024-09-26''"

definition ModerationTextStable :: string where
  "ModerationTextStable = ''text-moderation-stable''"

definition ModerationTextLatest :: string where
  "ModerationTextLatest = ''text-moderation-latest''"

definition ModerationText001 :: string where
  "ModerationText001 = ''text-moderation-001''"

text \<open>\<open>type ModerationItemType string\<close> with its two constants.\<close>

type_synonym ModerationItemType = string

definition ModerationItemTypeText :: ModerationItemType where
  "ModerationItemTypeText = ''text''"

definition ModerationItemTypeImageURL :: ModerationItemType where
  "ModerationItemTypeImageURL = ''image_url''"

text \<open>
  \<open>var validModerationModel = map[string]struct{}{...}\<close>: a map whose values carry no
  information; only membership of the key is read.
\<close>

definition validModerationModel :: "string \<rightharpoonup> unit" where
  "validModerationModel =
     [ModerationOmniLatest \<mapsto> (),
      ModerationOmni20240926 \<mapsto> (),
      ModerationTextStable \<mapsto> (),
      ModerationTextLatest \<mapsto> ()]"

subsection \<open>Request structures\<close>

record ModerationImageURL =
  URL :: string

record ModerationRequestItem =
  Type :: ModerationItemType
  ImageURL :: ModerationImageURL
  Text :: string

text \<open>
  \<open>Input any\<close> of \<open>ModerationRequestV2\<close>: an interface value, modelled by its dynamic type.
  The three conversions of this file store a \<open>string\<close>, a \<open>[]string\<close> and a
  \<open>[]ModerationRequestItem\<close>.
\<close>

datatype any_input =
    InputString string
  | InputStrArray "string list"
  | InputArray "ModerationRequestItem list"

record ModerationRequestV2 =
  Input :: any_input
  Model :: string

record ModerationRequest =
  Input :: string
  Model :: string

record ModerationStrArrayRequest =
  Input :: "string list"
  Model :: string

record ModerationArrayRequest =
  Input :: "ModerationRequestItem list"
  Model :: string

text \<open>
  The three \<open>Convert\<close> methods (value receivers: the request is not changed). Go resolves
  the method by the receiver's type; here each gets the receiver's name as a prefix.
\<close>

definition ModerationRequest_Convert :: "ModerationRequest \<Rightarrow> ModerationRequestV2" where
  "ModerationRequest_Convert m =
     \<lparr>ModerationRequestV2.Input = InputString (ModerationRequest.Input m),
      ModerationRequestV2.Model = ModerationRequest.Model m\<rparr>"

definition ModerationStrArrayRequest_Convert ::
  "ModerationStrArrayRequest \<Rightarrow> ModerationRequestV2" where
  "ModerationStrArrayRequest_Convert m =
     \<lparr>ModerationRequestV2.Input = InputStrArray (ModerationStrArrayRequest.Input m),
      ModerationRequestV2.Model = ModerationStrArrayRequest.Model m\<rparr>"

definition ModerationArrayRequest_Convert ::
  "ModerationArrayRequest \<Rightarrow> ModerationRequestV2" where
  "ModerationArrayRequest_Convert m =
     \<lparr>ModerationRequestV2.Input = InputArray (ModerationArrayRequest.Input m),
      ModerationRequestV2.Model = ModerationArrayRequest.Model m\<rparr>"

subsection \<open>The client and the moderation call\<close>

text \<open>
  \<open>ModerationResponse\<close>. The element type of \<open>Results\<close> (\<open>Result\<close>, with its float64
  scores) is only ever filled in by the JSON decoder of \<open>sendRequest\<close>, so it is the type
  parameter \<open>'res\<close>. The embedded \<open>httpHeader\<close> is declared in another file and is not
  read here.
\<close>

record 'res ModerationResponse =
  ID :: string
  Model :: string
  Results :: "'res list"

definition zero_ModerationResponse :: "'res ModerationResponse" where
  "zero_ModerationResponse =
     \<lparr>ModerationResponse.ID = [], ModerationResponse.Model = [], Results = []\<rparr>"

text \<open>
  The methods of \<open>*Client\<close> that the two calls use are declared in other files of the
  package; they are the fields of this record, so every statement below holds for any
  implementation of them.
  \<^item> \<open>newRequest ctx method url body\<close> builds the HTTP request or fails
    (\<open>withBody\<close> is its only option here, so the body is an argument);
  \<^item> \<open>fullURL suffix model\<close> (\<open>withModel\<close> is its only option here);
  \<^item> \<open>sendRequest req response\<close> performs the HTTP call and decodes into
    \<open>response\<close>, returning the decoded value and the error;
  \<^item> \<open>sendRequestStream req\<close> performs the HTTP call and returns a stream reader.
  \<open>'body\<close> is the type of the value given to \<open>withBody\<close> (an \<open>any\<close> in Go).
\<close>

record ('ctx, 'body, 'req, 'resp, 'rd) Client =
  newRequest :: "'ctx \<Rightarrow> string \<Rightarrow> string \<Rightarrow> 'body \<Rightarrow> error + 'req"
  fullURL :: "string \<Rightarrow> string \<Rightarrow> string"
  sendRequest :: "'req \<Rightarrow> 'resp \<Rightarrow> 'resp \<times> error option"
  sendRequestStream :: "'req \<Rightarrow> error + 'rd"

definition MethodPost :: string where
  "MethodPost = ''POST''"

text \<open>
  What a call did to the outside, in order: \<open>BuiltRequest url\<close> for a call of
  \<open>newRequest\<close>, \<open>SentRequest req\<close> for an HTTP request handed to the transport.
\<close>

datatype 'req call = BuiltRequest string | SentRequest 'req

record ('req, 'res) ModerationsResult =
  response :: "'res ModerationResponse"
  err :: "error option"
  calls :: "'req call list"

text \<open>
  \<open>Moderations\<close>. \<open>request\<close> is a \<open>ModerationRequestConverter\<close>: any value with a
  \<open>Convert\<close> method, which is the argument \<open>Convert\<close>. The body given to
  \<open>newRequest\<close> is \<open>&request\<close>, the caller's value and not the converted one.
\<close>

definition Moderations ::
  "('ctx, 'q, 'req, 'res ModerationResponse, 'rd) Client \<Rightarrow> 'ctx \<Rightarrow>
   ('q \<Rightarrow> ModerationRequestV2) \<Rightarrow> 'q \<Rightarrow> ('req, 'res) ModerationsResult" where
  "Moderations c ctx Convert request =
     (let realRequest = Convert request;
          ok = (validModerationModel (ModerationRequestV2.Model realRequest) \<noteq> None)
      in if length (ModerationRequestV2.Model realRequest) > 0 \<and> \<not> ok
         then \<lparr>response = zero_ModerationResponse,
               err = Some ErrModerationInvalidModel,
               calls = []\<rparr>
         else let url = fullURL c ''/moderations'' (ModerationRequestV2.Model realRequest)
              in case newRequest c ctx MethodPost url request of
                   Inl e \<Rightarrow>
                     \<lparr>response = zero_ModerationResponse,
                      err = Some e,
                      calls = [BuiltRequest url]\<rparr>
                 | Inr req \<Rightarrow>
                     (case sendRequest c req zero_ModerationResponse of
                        (resp, e) \<Rightarrow>
                          \<lparr>response = resp,
                           err = e,
                           calls = [BuiltRequest url, SentRequest req]\<rparr>))"

text \<open>An example client: every request is built and answered with an empty result.\<close>

definition example_Client ::
  "(unit, 'q, string, 'res ModerationResponse, unit) Client" where
  "example_Client =
     \<lparr>newRequest = (\<lambda>ctx method url body. Inr (method @ '' '' @ url)),
      fullURL = (\<lambda>suffix model. suffix),
      sendRequest = (\<lambda>req resp. (resp\<lparr>ModerationResponse.ID := ''modr-1''\<rparr>, None)),
      sendRequestStream = (\<lambda>req. Inl (OtherError ''not a streaming endpoint''))\<rparr>"

section \<open>The chat completion stream\<close>

subsection \<open>Stream records\<close>

text \<open>
  The structs of the stream response. Fields whose types are declared in other files of the
  package (\<open>FunctionCall\<close>, \<open>ToolCalls\<close>, \<open>ContentFilterResults\<close>, \<open>PromptAnnotations\<close>,
  \<open>Usage\<close>) and the float64 log-probabilities are left out: no function of this file reads
  or writes a field of a record, records are only passed on. \<open>FinishReason\<close> is kept as the
  string it is on the wire. Go's \<open>int\<close> and \<open>int64\<close> are \<open>int\<close>: no arithmetic is done on
  them.
\<close>

record ChatCompletionStreamChoiceDelta =
  Content :: string
  Role :: string
  Refusal :: string
  ReasoningContent :: string

record ChatCompletionStreamChoice =
  Index :: int
  Delta :: ChatCompletionStreamChoiceDelta
  FinishReason :: string

record ChatCompletionStreamResponse =
  ID :: string
  Object :: string
  Created :: int
  Model :: string
  Choices :: "ChatCompletionStreamChoice list"
  SystemFingerprint :: string

definition zero_ChatCompletionStreamResponse :: ChatCompletionStreamResponse where
  "zero_ChatCompletionStreamResponse =
     \<lparr>ChatCompletionStreamResponse.ID = [], Object = [], Created = 0,
      ChatCompletionStreamResponse.Model = [], Choices = [], SystemFingerprint = []\<rparr>"

subsection \<open>Headers and rate limits\<close>

text \<open>\<open>http.Header\<close> is \<open>map[string][]string\<close>.\<close>

type_synonym http_Header = "string \<rightharpoonup> string list"

text \<open>
  \<open>RateLimitHeaders\<close> is declared in another file; \<open>GetRateLimitHeaders\<close> reads these six
  fields of it. The type \<open>'n\<close> of the four counts and the type \<open>'d\<close> of the two reset
  times are parameters, and so is the \<open>String\<close> method of the reset times.
\<close>

record ('n, 'd) RateLimitHeaders =
  LimitRequests :: 'n
  LimitTokens :: 'n
  RemainingRequests :: 'n
  RemainingTokens :: 'n
  ResetRequests :: 'd
  ResetTokens :: 'd

text \<open>
  The values of the \<open>map[string]interface{}\<close> that \<open>GetRateLimitHeaders\<close> returns: a count
  as it is, or a string.
\<close>

datatype 'n header_value = CountValue 'n | StringValue string

subsection \<open>The reader interface and the stream\<close>

text \<open>
  A value of the interface \<open>ChatStreamReader\<close> is an object with a state of its own
  (\<open>self\<close>) and the two methods of the interface, each taking the state and returning
  its result with the new state. The two optional methods that \<open>Header\<close> and
  \<open>GetRateLimitHeaders\<close> probe for with a type assertion are \<open>None\<close> when the dynamic
  type does not have them.
\<close>

record ('st, 'n, 'd) ChatStreamReader =
  self :: 'st
  Recv_method :: "'st \<Rightarrow> (ChatCompletionStreamResponse \<times> error option) \<times> 'st"
  Close_method :: "'st \<Rightarrow> error option \<times> 'st"
  Header_method :: "('st \<Rightarrow> http_Header \<times> 'st) option"
  GetRateLimitHeaders_method :: "('st \<Rightarrow> ('n, 'd) RateLimitHeaders \<times> 'st) option"

text \<open>
  \<open>ChatCompletionStream\<close>. The field \<open>reader\<close> is an interface value and may be \<open>nil\<close>
  (\<open>None\<close>): \<open>NewChatCompletionStream\<close> stores whatever it is given.
\<close>

record ('st, 'n, 'd) ChatCompletionStream =
  reader :: "('st, 'n, 'd) ChatStreamReader option"

definition NewChatCompletionStream ::
  "('st, 'n, 'd) ChatStreamReader option \<Rightarrow> ('st, 'n, 'd) ChatCompletionStream" where
  "NewChatCompletionStream r = \<lparr>reader = r\<rparr>"

text \<open>
  A method call either returns or panics; calling a method of a \<open>nil\<close> interface value
  panics, a type assertion with \<open>ok\<close> on it does not.
\<close>

datatype 'a outcome = Returned 'a | Panicked

definition Recv ::
  "('st, 'n, 'd) ChatCompletionStream \<Rightarrow>
   (ChatCompletionStreamResponse \<times> error option) outcome \<times> ('st, 'n, 'd) ChatCompletionStream"
  where
  "Recv s =
     (case reader s of
        None \<Rightarrow> (Panicked, s)
      | Some r \<Rightarrow>
          (case Recv_method r (self r) of
             (res, st') \<Rightarrow> (Returned res, s\<lparr>reader := Some (r\<lparr>self := st'\<rparr>)\<rparr>)))"

definition Close ::
  "('st, 'n, 'd) ChatCompletionStream \<Rightarrow>
   error option outcome \<times> ('st, 'n, 'd) ChatCompletionStream" where
  "Close s =
     (case reader s of
        None \<Rightarrow> (Panicked, s)
      | Some r \<Rightarrow>
          (case Close_method r (self r) of
             (e, st') \<Rightarrow> (Returned e, s\<lparr>reader := Some (r\<lparr>self := st'\<rparr>)\<rparr>)))"

definition Header ::
  "('st, 'n, 'd) ChatCompletionStream \<Rightarrow>
   http_Header outcome \<times> ('st, 'n, 'd) ChatCompletionStream" where
  "Header s =
     (case reader s of
        None \<Rightarrow> (Returned Map.empty, s)
      | Some r \<Rightarrow>
          (case Header_method r of
             Some h \<Rightarrow>
               (case h (self r) of
                  (hdr, st') \<Rightarrow> (Returned hdr, s\<lparr>reader := Some (r\<lparr>self := st'\<rparr>)\<rparr>))
           | None \<Rightarrow> (Returned Map.empty, s)))"

definition GetRateLimitHeaders ::
  "('d \<Rightarrow> string) \<Rightarrow> ('st, 'n, 'd) ChatCompletionStream \<Rightarrow>
   (string \<rightharpoonup> 'n header_value) outcome \<times> ('st, 'n, 'd) ChatCompletionStream" where
  "GetRateLimitHeaders String s =
     (case reader s of
        None \<Rightarrow> (Returned Map.empty, s)
      | Some r \<Rightarrow>
          (case GetRateLimitHeaders_method r of
             Some h \<Rightarrow>
               (case h (self r) of
                  (headers, st') \<Rightarrow>
                    (Returned
                       [''x-ratelimit-limit-requests'' \<mapsto> CountValue (LimitRequests headers),
                        ''x-ratelimit-limit-tokens'' \<mapsto> CountValue (LimitTokens headers),
                        ''x-ratelimit-remaining-requests'' \<mapsto>
                           CountValue (RemainingRequests headers),
                        ''x-ratelimit-remaining-tokens'' \<mapsto>
                           CountValue (RemainingTokens headers),
                        ''x-ratelimit-reset-requests'' \<mapsto>
                           StringValue (String (ResetRequests headers)),
                        ''x-ratelimit-reset-tokens'' \<mapsto>
                           StringValue (String (ResetTokens headers))],
                     s\<lparr>reader := Some (r\<lparr>self := st'\<rparr>)\<rparr>))
           | None \<Rightarrow> (Returned Map.empty, s)))"

text \<open>
  A caller's sequence of calls on one stream: the results of the calls in order, and the
  stream after the last one.
\<close>

datatype stream_call = CallRecv | CallGetRateLimitHeaders

fun after_calls ::
  "('d \<Rightarrow> string) \<Rightarrow> stream_call list \<Rightarrow> ('st, 'n, 'd) ChatCompletionStream \<Rightarrow>
   ('st, 'n, 'd) ChatCompletionStream" where
  "after_calls String [] s = s"
| "after_calls String (CallRecv # cs) s = after_calls String cs (snd (Recv s))"
| "after_calls String (CallGetRateLimitHeaders # cs) s =
     after_calls String cs (snd (GetRateLimitHeaders String s))"

subsection \<open>Opening a stream\<close>

text \<open>
  \<open>ChatCompletionRequest\<close> is declared in another file; \<open>CreateChatCompletionStream\<close>
  reads \<open>Model\<close> and writes \<open>Stream\<close>. Its other fields are the extension part of the
  record, so the functions below take any \<open>'z ChatCompletionRequest_scheme\<close>.
\<close>

record ChatCompletionRequest =
  Model :: string
  Stream :: bool

text \<open>
  The package-level names that \<open>CreateChatCompletionStream\<close> uses and that are declared
  in other files: the constant \<open>chatCompletionsSuffix\<close>, the function
  \<open>checkEndpointSupportsModel\<close>, and \<open>NewReasoningValidator().Validate\<close>.
\<close>

record 'z Package =
  chatCompletionsSuffix :: string
  checkEndpointSupportsModel :: "string \<Rightarrow> string \<Rightarrow> bool"
  ReasoningValidator_Validate :: "'z ChatCompletionRequest_scheme \<Rightarrow> error option"

record ('req, 'st, 'n, 'd) CreateResult =
  stream :: "('st, 'n, 'd) ChatCompletionStream option"
  err :: "error option"
  calls :: "'req call list"

definition CreateChatCompletionStream ::
  "'z Package \<Rightarrow>
   ('ctx, 'z ChatCompletionRequest_scheme, 'req, 'resp, ('st, 'n, 'd) ChatStreamReader) Client \<Rightarrow>
   'ctx \<Rightarrow> 'z ChatCompletionRequest_scheme \<Rightarrow> ('req, 'st, 'n, 'd) CreateResult" where
  "CreateChatCompletionStream pkg c ctx request =
     (let urlSuffix = chatCompletionsSuffix pkg
      in if \<not> checkEndpointSupportsModel pkg urlSuffix (ChatCompletionRequest.Model request)
         then \<lparr>stream = None, err = Some ErrChatCompletionInvalidModel, calls = []\<rparr>
         else
           let request = request\<lparr>Stream := True\<rparr>
           in case ReasoningValidator_Validate pkg request of
                Some e \<Rightarrow> \<lparr>stream = None, err = Some e, calls = []\<rparr>
              | None \<Rightarrow>
                  let url = fullURL c urlSuffix (ChatCompletionRequest.Model request)
                  in case newRequest c ctx MethodPost url request of
                       Inl e \<Rightarrow>
                         \<lparr>stream = None, err = Some e, calls = [BuiltRequest url]\<rparr>
                     | Inr req \<Rightarrow>
                         (case sendRequestStream c req of
                            Inl e \<Rightarrow>
                              \<lparr>stream = None, err = Some e,
                               calls = [BuiltRequest url, SentRequest req]\<rparr>
                          | Inr resp \<Rightarrow>
                              \<lparr>stream = Some \<lparr>reader = Some resp\<rparr>, err = None,
                               calls = [BuiltRequest url, SentRequest req]\<rparr>))"


section \<open>The stream reader behind \<open>sendRequestStream\<close>\<close>

text \<open>
  The reader that \<open>sendRequestStream\<close> returns is implemented in another file of the
  package. This section models it from the specification (sections 3, 4.1, 4.2, 6 and 7):
  an event-frame decoder over the lines of the response body and a typed stream reader
  with the states Open, Done, Closed and Errored.
\<close>

text \<open>Modelled from the spec: the data prefix of an event line (section 6).\<close>

definition data_prefix :: string where
  "data_prefix = ''data:''"

text \<open>Modelled from the spec: the sentinel payload that ends the stream (section 6).\<close>

definition sentinel :: string where
  "sentinel = ''[DONE]''"

text \<open>
  Modelled from the spec: the whitespace that surrounds a payload (section 3, Raw Frame):
  space, tab, line feed, carriage return.
\<close>

definition is_space :: "char \<Rightarrow> bool" where
  "is_space c \<longleftrightarrow> c = CHR '' '' \<or> c = CHR 0x09 \<or> c = CHR 0x0A \<or> c = CHR 0x0D"

text \<open>Modelled from the spec: trimming of surrounding whitespace (section 3).\<close>

definition trim :: "string \<Rightarrow> string" where
  "trim s = rev (dropWhile is_space (rev (dropWhile is_space s)))"

text \<open>Modelled from the spec: a line "beginning with the data-prefix" (section 4.1).\<close>

definition has_data_prefix :: "string \<Rightarrow> bool" where
  "has_data_prefix l \<longleftrightarrow> take (length data_prefix) l = data_prefix"

text \<open>
  Modelled from the spec: the Raw Frame of a data line, "trimmed of the prefix and
  surrounding whitespace" (section 3).
\<close>

definition payload :: "string \<Rightarrow> string" where
  "payload l = trim (drop (length data_prefix) l)"

text \<open>
  Modelled from the spec: what \<open>next()\<close> of the Event-Frame Decoder returns: a Raw Frame,
  a "stream ended" signal, or a transport error (section 4.1).
\<close>

datatype frame = RawFrame string | StreamEnded | TransportFailure

text \<open>
  Modelled from the spec: \<open>next()\<close> of the Event-Frame Decoder (section 4.1) over the
  lines that the response body still holds. A data line yields its payload, or the "stream
  ended" signal when the payload is the sentinel; any other line is discarded; a body that
  ends with no sentinel is a premature close, a transport error (section 7). The result
  comes with the lines left unread.
\<close>

fun decoder_next :: "string list \<Rightarrow> frame \<times> string list" where
  "decoder_next [] = (TransportFailure, [])"
| "decoder_next (l # ls) =
     (if has_data_prefix l
      then (if payload l = sentinel then (StreamEnded, ls) else (RawFrame (payload l), ls))
      else decoder_next ls)"

text \<open>
  Modelled from the spec: the Stream State (section 3). \<open>Errored\<close> keeps the error that
  caused it, which later calls of \<open>receive()\<close> repeat (section 4.2).
\<close>

datatype stream_state = Open | Done | Closed | Errored error

text \<open>
  Modelled from the spec: the Typed Stream Reader (section 4.2): its state, the unread
  lines of the connection it owns, and the response headers captured when the call was
  established.
\<close>

record streamReader =
  state :: stream_state
  body :: "string list"
  initial_headers :: http_Header

text \<open>
  Modelled from the spec: \<open>receive()\<close> of the Typed Stream Reader (section 4.2), with the
  JSON decoding of a payload into a Stream Record as the parameter \<open>decode\<close> (an outside
  collaborator, section 6). In Done, Errored and Closed it returns the terminal error
  without reading.
\<close>

definition receive ::
  "(string \<Rightarrow> ChatCompletionStreamResponse option) \<Rightarrow> streamReader \<Rightarrow>
   (error + ChatCompletionStreamResponse) \<times> streamReader" where
  "receive decode r =
     (case state r of
        Closed \<Rightarrow> (Inl ClosedStreamError, r)
      | Done \<Rightarrow> (Inl EndOfStream, r)
      | Errored e \<Rightarrow> (Inl e, r)
      | Open \<Rightarrow>
          (case decoder_next (body r) of
             (StreamEnded, rest) \<Rightarrow> (Inl EndOfStream, r\<lparr>state := Done, body := rest\<rparr>)
           | (TransportFailure, rest) \<Rightarrow>
               (Inl TransportError, r\<lparr>state := Errored TransportError, body := rest\<rparr>)
           | (RawFrame p, rest) \<Rightarrow>
               (case decode p of
                  None \<Rightarrow>
                    (Inl (DecodeError p), r\<lparr>state := Errored (DecodeError p), body := rest\<rparr>)
                | Some record \<Rightarrow> (Inr record, r\<lparr>body := rest\<rparr>))))"

text \<open>
  Modelled from the spec: \<open>close()\<close> of the Typed Stream Reader (section 4.2): it releases
  the connection, with whatever the connection still held, and moves to Closed from any
  state.
\<close>

definition close :: "streamReader \<Rightarrow> streamReader" where
  "close r = r\<lparr>state := Closed, body := []\<rparr>"

text \<open>Modelled from the spec: \<open>headers()\<close> of the Typed Stream Reader (section 4.2).\<close>

definition headers :: "streamReader \<Rightarrow> http_Header" where
  "headers r = initial_headers r"

text \<open>
  Modelled from the spec: \<open>rateLimits()\<close> of the Typed Stream Reader (section 4.2), with
  the parsing of the Rate-Limit Snapshot out of the headers as the parameter \<open>parse\<close>.
\<close>

definition rateLimits ::
  "(http_Header \<Rightarrow> ('n, 'd) RateLimitHeaders) \<Rightarrow> streamReader \<Rightarrow> ('n, 'd) RateLimitHeaders"
  where
  "rateLimits parse r = parse (initial_headers r)"

text \<open>
  Modelled from the spec: the Typed Stream Reader as a value of the interface
  \<open>ChatStreamReader\<close>. Go returns a pair: the record with a \<open>nil\<close> error, or the zero
  record with the error.
\<close>

definition streamReader_Recv ::
  "(string \<Rightarrow> ChatCompletionStreamResponse option) \<Rightarrow> streamReader \<Rightarrow>
   (ChatCompletionStreamResponse \<times> error option) \<times> streamReader" where
  "streamReader_Recv decode r =
     (case receive decode r of
        (Inl e, r') \<Rightarrow> ((zero_ChatCompletionStreamResponse, Some e), r')
      | (Inr record, r') \<Rightarrow> ((record, None), r'))"

definition streamReader_interface ::
  "(string \<Rightarrow> ChatCompletionStreamResponse option) \<Rightarrow>
   (http_Header \<Rightarrow> ('n, 'd) RateLimitHeaders) \<Rightarrow> streamReader \<Rightarrow>
   (streamReader, 'n, 'd) ChatStreamReader" where
  "streamReader_interface decode parse r =
     \<lparr>self = r,
      Recv_method = streamReader_Recv decode,
      Close_method = (\<lambda>st. (None, close st)),
      Header_method = Some (\<lambda>st. (headers st, st)),
      GetRateLimitHeaders_method = Some (\<lambda>st. (rateLimits parse st, st))\<rparr>"

section \<open>Results of repeated calls\<close>

text \<open>The results of \<open>n\<close> successive calls of one method of a reader, from state \<open>st\<close>.\<close>

fun method_results :: "('st \<Rightarrow> 'a \<times> 'st) \<Rightarrow> nat \<Rightarrow> 'st \<Rightarrow> 'a list" where
  "method_results m 0 st = []"
| "method_results m (Suc n) st = (case m st of (a, st') \<Rightarrow> a # method_results m n st')"

text \<open>The results of \<open>n\<close> successive calls of \<open>Recv\<close> on a stream.\<close>

definition Recv_results ::
  "nat \<Rightarrow> ('st, 'n, 'd) ChatCompletionStream \<Rightarrow>
   (ChatCompletionStreamResponse \<times> error option) outcome list" where
  "Recv_results n s = method_results Recv n s"

section \<open>Example values\<close>

text \<open>
  A reader as a test would inject it: its state is the list of records still to deliver,
  \<open>Recv\<close> delivers the next one, \<open>Close\<close> does nothing, and it has neither of the two
  optional methods.
\<close>

definition listReader ::
  "ChatCompletionStreamResponse list \<Rightarrow>
   (ChatCompletionStreamResponse list, int, string) ChatStreamReader" where
  "listReader records =
     \<lparr>self = records,
      Recv_method = (\<lambda>st. case st of
                        [] \<Rightarrow> ((zero_ChatCompletionStreamResponse, Some EndOfStream), [])
                      | x # xs \<Rightarrow> ((x, None), xs)),
      Close_method = (\<lambda>st. (None, st)),
      Header_method = None,
      GetRateLimitHeaders_method = None\<rparr>"

text \<open>
  Another reader a caller may inject: it delivers its records like \<open>listReader\<close> and
  counts the calls of \<open>Close\<close>, which releases nothing; the first \<open>Close\<close> returns
  \<open>nil\<close>, every later one an error.
\<close>

definition countingReader ::
  "ChatCompletionStreamResponse list \<Rightarrow>
   (ChatCompletionStreamResponse list \<times> nat, int, string) ChatStreamReader" where
  "countingReader records =
     \<lparr>self = (records, 0),
      Recv_method = (\<lambda>st. case st of
                        ([], k) \<Rightarrow> ((zero_ChatCompletionStreamResponse, Some EndOfStream), ([], k))
                      | (x # xs, k) \<Rightarrow> ((x, None), (xs, k))),
      Close_method = (\<lambda>st. case st of
                        (rs, k) \<Rightarrow>
                          (if k = 0 then None else Some (OtherError ''already closed''),
                           (rs, Suc k))),
      Header_method = None,
      GetRateLimitHeaders_method = None\<rparr>"

definition record_Hi :: ChatCompletionStreamResponse where
  "record_Hi =
     \<lparr>ChatCompletionStreamResponse.ID = ''1'', Object = ''chat.completion.chunk'',
      Created = 0, ChatCompletionStreamResponse.Model = ''gpt-4'',
      Choices = [\<lparr>Index = 0,
                  Delta = \<lparr>Content = ''Hi'', Role = [], Refusal = [], ReasoningContent = []\<rparr>,
                  FinishReason = []\<rparr>],
      SystemFingerprint = []\<rparr>"

text \<open>
  A stand-in for the JSON decoder: a payload in braces decodes to a record with the payload
  as its \<open>ID\<close>, anything else fails to decode.
\<close>

definition example_decode :: "string \<Rightarrow> ChatCompletionStreamResponse option" where
  "example_decode p =
     (if p \<noteq> [] \<and> hd p = CHR ''{'' \<and> last p = CHR ''}''
      then Some (zero_ChatCompletionStreamResponse\<lparr>ChatCompletionStreamResponse.ID := p\<rparr>)
      else None)"

text \<open>
  A stand-in for the parsing of the rate-limit headers: the first value of each header,
  as a string, the empty string when the header is absent.
\<close>

definition example_parse :: "http_Header \<Rightarrow> (string, string) RateLimitHeaders" where
  "example_parse h =
     (let get = (\<lambda>k. case h k of Some (v # vs) \<Rightarrow> v | _ \<Rightarrow> [])
      in \<lparr>LimitRequests = get ''x-ratelimit-limit-requests'',
          LimitTokens = get ''x-ratelimit-limit-tokens'',
          RemainingRequests = get ''x-ratelimit-remaining-requests'',
          RemainingTokens = get ''x-ratelimit-remaining-tokens'',
          ResetRequests = get ''x-ratelimit-reset-requests'',
          ResetTokens = get ''x-ratelimit-reset-tokens''\<rparr>)"

definition example_headers :: http_Header where
  "example_headers =
     [''x-ratelimit-limit-requests'' \<mapsto> [''60''],
      ''x-ratelimit-reset-requests'' \<mapsto> [''1s'']]"

definition example_streamReader :: streamReader where
  "example_streamReader =
     \<lparr>state = Open,
      body = ['': keep-alive'', ''data: {\"id\":\"1\"}'', [], ''data: {\"id\":\"2\"}'',
              ''data: [DONE]'', ''data: {\"id\":\"3\"}''],
      initial_headers = example_headers\<rparr>"

definition example_stream :: "(streamReader, string, string) ChatCompletionStream" where
  "example_stream =
     NewChatCompletionStream
       (Some (streamReader_interface example_decode example_parse example_streamReader))"

text \<open>
  An example of the package-level names: the model check rejects one model name for the
  chat completions endpoint, the reasoning validator accepts every request.
\<close>

definition example_Package :: "'z Package" where
  "example_Package =
     \<lparr>chatCompletionsSuffix = ''/chat/completions'',
      checkEndpointSupportsModel =
        (\<lambda>endpoint model. \<not> (endpoint = ''/chat/completions'' \<and> model = ''code-davinci-002'')),
      ReasoningValidator_Validate = (\<lambda>request. None)\<rparr>"

text \<open>An example client whose transport answers every request with the example body.\<close>

definition example_stream_Client ::
  "(unit, 'z ChatCompletionRequest_scheme, string, unit,
    (streamReader, string, string) ChatStreamReader) Client" where
  "example_stream_Client =
     \<lparr>newRequest = (\<lambda>ctx method url body. Inr (method @ '' '' @ url)),
      fullURL = (\<lambda>suffix model. ''https://api.openai.com/v1'' @ suffix),
      sendRequest = (\<lambda>req resp. (resp, None)),
      sendRequestStream =
        (\<lambda>req. Inr (streamReader_interface example_decode example_parse
                       example_streamReader))\<rparr>"


section \<open>Properties of moderation.go\<close>

lemma validModerationModel_None_iff:
  "validModerationModel m = None \<longleftrightarrow>
     m \<notin> {''omni-moderation-latest'', ''omni-moderation-2024-09-26'',
           ''text-moderation-stable'', ''text-moderation-latest''}"
  by (simp add: validModerationModel_def ModerationOmniLatest_def
      ModerationOmni20240926_def ModerationTextStable_def ModerationTextLatest_def)

text \<open>
  C10. Each of the three \<open>Convert\<close> methods keeps both fields: the \<open>Input\<close> of the result
  is the \<open>Input\<close> of the request (as a string, a string array or an item array), and the
  \<open>Model\<close> of the result is the \<open>Model\<close> of the request. \<open>Convert\<close> is a function of the
  request alone and returns nothing else.
\<close>

theorem Convert_preserves_Input_and_Model:
  "ModerationRequestV2.Input (ModerationRequest_Convert m1) =
     InputString (ModerationRequest.Input m1) \<and>
   ModerationRequestV2.Model (ModerationRequest_Convert m1) = ModerationRequest.Model m1 \<and>
   ModerationRequestV2.Input (ModerationStrArrayRequest_Convert m2) =
     InputStrArray (ModerationStrArrayRequest.Input m2) \<and>
   ModerationRequestV2.Model (ModerationStrArrayRequest_Convert m2) =
     ModerationStrArrayRequest.Model m2 \<and>
   ModerationRequestV2.Input (ModerationArrayRequest_Convert m3) =
     InputArray (ModerationArrayRequest.Input m3) \<and>
   ModerationRequestV2.Model (ModerationArrayRequest_Convert m3) =
     ModerationArrayRequest.Model m3"
  by (simp add: ModerationRequest_Convert_def ModerationStrArrayRequest_Convert_def
      ModerationArrayRequest_Convert_def)

text \<open>
  C9. \<open>Moderations\<close> returns \<open>ErrModerationInvalidModel\<close> before it has built or sent any
  request exactly when the \<open>Model\<close> of the converted request is non-empty and is none of
  \<open>omni-moderation-latest\<close>, \<open>omni-moderation-2024-09-26\<close>, \<open>text-moderation-stable\<close>,
  \<open>text-moderation-latest\<close>. The response is then the zero value. An empty \<open>Model\<close> passes
  the validation step: the call goes on to build the request.
\<close>

theorem Moderations_rejects_exactly_invalid_models:
  fixes c :: "('ctx, 'q, 'req, 'res ModerationResponse, 'rd) Client"
  shows
  "((ModerationsResult.err (Moderations c ctx Convert request) = Some ErrModerationInvalidModel \<and>
     ModerationsResult.calls (Moderations c ctx Convert request) = [])
      \<longleftrightarrow>
    (ModerationRequestV2.Model (Convert request) \<noteq> [] \<and>
     ModerationRequestV2.Model (Convert request) \<notin>
       {''omni-moderation-latest'', ''omni-moderation-2024-09-26'',
        ''text-moderation-stable'', ''text-moderation-latest''})) \<and>
   (ModerationRequestV2.Model (Convert request) \<noteq> [] \<and>
    ModerationRequestV2.Model (Convert request) \<notin>
       {''omni-moderation-latest'', ''omni-moderation-2024-09-26'',
        ''text-moderation-stable'', ''text-moderation-latest''}
      \<longrightarrow>
    Moderations c ctx Convert request =
      \<lparr>response = zero_ModerationResponse, err = Some ErrModerationInvalidModel,
       calls = []\<rparr>) \<and>
   (ModerationRequestV2.Model (Convert request) = []
      \<longrightarrow>
    hd (ModerationsResult.calls (Moderations c ctx Convert request)) =
      BuiltRequest (fullURL c ''/moderations'' []))"
proof -
  let ?m = "ModerationRequestV2.Model (Convert request)"
  let ?bad = "?m \<noteq> [] \<and> ?m \<notin> {''omni-moderation-latest'', ''omni-moderation-2024-09-26'',
        ''text-moderation-stable'', ''text-moderation-latest''}"
  have reject: "Moderations c ctx Convert request =
      \<lparr>response = zero_ModerationResponse, err = Some ErrModerationInvalidModel,
       calls = []\<rparr>" if "?bad"
    using that validModerationModel_None_iff [of ?m]
    by (simp add: Moderations_def Let_def)
  have accept: "ModerationsResult.calls (Moderations c ctx Convert request) \<noteq> [] \<and>
      hd (ModerationsResult.calls (Moderations c ctx Convert request)) =
        BuiltRequest (fullURL c ''/moderations'' ?m)" if "\<not> ?bad"
  proof -
    have "\<not> (length ?m > 0 \<and> \<not> validModerationModel ?m \<noteq> None)"
      using that validModerationModel_None_iff [of ?m] by auto
    then show ?thesis
      by (simp add: Moderations_def Let_def split: sum.splits prod.splits)
  qed
  show ?thesis
  proof (cases "?bad")
    case True
    then show ?thesis using reject by simp
  next
    case False
    then show ?thesis using accept by auto
  qed
qed

theorem Moderations_rejects_exactly_invalid_models_witness:
  "Moderations (example_Client :: (unit, ModerationRequest, string, unit ModerationResponse, unit) Client)
     () ModerationRequest_Convert \<lparr>ModerationRequest.Input = ''hi'', Model = ''gpt-4''\<rparr> =
     \<lparr>response = zero_ModerationResponse, err = Some ErrModerationInvalidModel, calls = []\<rparr> \<and>
   hd (ModerationsResult.calls
         (Moderations (example_Client :: (unit, ModerationRequest, string, unit ModerationResponse, unit) Client)
            () ModerationRequest_Convert \<lparr>ModerationRequest.Input = ''hi'', Model = []\<rparr>)) =
     BuiltRequest ''/moderations''"
  using Moderations_rejects_exactly_invalid_models
      [of "example_Client :: (unit, ModerationRequest, string, unit ModerationResponse, unit) Client"
          "()" ModerationRequest_Convert
          "\<lparr>ModerationRequest.Input = ''hi'', Model = ''gpt-4''\<rparr>"]
    Moderations_rejects_exactly_invalid_models
      [of "example_Client :: (unit, ModerationRequest, string, unit ModerationResponse, unit) Client"
          "()" ModerationRequest_Convert
          "\<lparr>ModerationRequest.Input = ''hi'', Model = []\<rparr>"]
  by (simp add: ModerationRequest_Convert_def example_Client_def)


section \<open>Properties of the stream\<close>

lemma Recv_Some:
  "reader s = Some r \<Longrightarrow>
   Recv s = (Returned (fst (Recv_method r (self r))),
             s\<lparr>reader := Some (r\<lparr>self := snd (Recv_method r (self r))\<rparr>)\<rparr>)"
  by (simp add: Recv_def split: prod.splits)

lemma Close_Some:
  "reader s = Some r \<Longrightarrow>
   Close s = (Returned (fst (Close_method r (self r))),
              s\<lparr>reader := Some (r\<lparr>self := snd (Close_method r (self r))\<rparr>)\<rparr>)"
  by (simp add: Close_def split: prod.splits)

lemma Recv_results_Suc:
  "Recv_results (Suc n) s = fst (Recv s) # Recv_results n (snd (Recv s))"
  by (simp add: Recv_results_def split: prod.splits)

lemma Recv_results_delegates:
  "reader s = Some r \<Longrightarrow>
   Recv_results n s = map Returned (method_results (Recv_method r) n (self r))"
proof (induction n arbitrary: s r)
  case 0
  show ?case by (simp add: Recv_results_def)
next
  case (Suc n)
  let ?r' = "r\<lparr>self := snd (Recv_method r (self r))\<rparr>"
  have step: "Recv s = (Returned (fst (Recv_method r (self r))), s\<lparr>reader := Some ?r'\<rparr>)"
    using Suc.prems by (rule Recv_Some)
  have "Recv_results n (s\<lparr>reader := Some ?r'\<rparr>) =
          map Returned (method_results (Recv_method ?r') n (self ?r'))"
    by (rule Suc.IH) simp
  then show ?case
    by (simp add: Recv_results_Suc step split: prod.splits)
qed

text \<open>
  C1. When the reader of a stream does not have the \<open>Header\<close> method, \<open>Header\<close> of the
  stream returns the empty \<open>http.Header\<close>; when it does not have the
  \<open>GetRateLimitHeaders\<close> method, \<open>GetRateLimitHeaders\<close> of the stream returns the empty
  map. Neither call panics, neither has an error to return, and the stream is left as it
  was. This holds for a \<open>nil\<close> reader as well.
\<close>

theorem accessors_empty_without_method:
  "((\<forall>r. reader s = Some r \<longrightarrow> Header_method r = None) \<longrightarrow>
      Header s = (Returned Map.empty, s)) \<and>
   ((\<forall>r. reader s = Some r \<longrightarrow> GetRateLimitHeaders_method r = None) \<longrightarrow>
      GetRateLimitHeaders String s = (Returned Map.empty, s))"
  by (cases "reader s") (simp_all add: Header_def GetRateLimitHeaders_def)

theorem accessors_empty_without_method_witness:
  "Header (NewChatCompletionStream (Some (listReader [record_Hi]))) =
     (Returned Map.empty, NewChatCompletionStream (Some (listReader [record_Hi]))) \<and>
   GetRateLimitHeaders (\<lambda>d. d) (NewChatCompletionStream (Some (listReader [record_Hi]))) =
     (Returned Map.empty, NewChatCompletionStream (Some (listReader [record_Hi])))"
  using accessors_empty_without_method
      [of "NewChatCompletionStream (Some (listReader [record_Hi]))" "\<lambda>d. d"]
  by (simp add: NewChatCompletionStream_def listReader_def)

text \<open>
  C2. When the reader of a stream has the \<open>GetRateLimitHeaders\<close> method,
  \<open>GetRateLimitHeaders\<close> of the stream returns a map with exactly the six keys
  \<open>x-ratelimit-limit-requests\<close>, \<open>x-ratelimit-limit-tokens\<close>,
  \<open>x-ratelimit-remaining-requests\<close>, \<open>x-ratelimit-remaining-tokens\<close>,
  \<open>x-ratelimit-reset-requests\<close> and \<open>x-ratelimit-reset-tokens\<close>; their values are the
  four counts of the reader's snapshot and the \<open>String()\<close> of its two reset times.
\<close>

theorem GetRateLimitHeaders_six_keys:
  assumes "reader s = Some r" and "GetRateLimitHeaders_method r = Some g"
  shows "case fst (GetRateLimitHeaders String s) of
           Panicked \<Rightarrow> False
         | Returned m \<Rightarrow>
             dom m = {''x-ratelimit-limit-requests'', ''x-ratelimit-limit-tokens'',
                      ''x-ratelimit-remaining-requests'', ''x-ratelimit-remaining-tokens'',
                      ''x-ratelimit-reset-requests'', ''x-ratelimit-reset-tokens''} \<and>
             m ''x-ratelimit-limit-requests'' =
               Some (CountValue (LimitRequests (fst (g (self r))))) \<and>
             m ''x-ratelimit-limit-tokens'' =
               Some (CountValue (LimitTokens (fst (g (self r))))) \<and>
             m ''x-ratelimit-remaining-requests'' =
               Some (CountValue (RemainingRequests (fst (g (self r))))) \<and>
             m ''x-ratelimit-remaining-tokens'' =
               Some (CountValue (RemainingTokens (fst (g (self r))))) \<and>
             m ''x-ratelimit-reset-requests'' =
               Some (StringValue (String (ResetRequests (fst (g (self r)))))) \<and>
             m ''x-ratelimit-reset-tokens'' =
               Some (StringValue (String (ResetTokens (fst (g (self r))))))"
  using assms by (auto simp: GetRateLimitHeaders_def split: prod.splits)

theorem GetRateLimitHeaders_six_keys_witness:
  "case fst (GetRateLimitHeaders (\<lambda>d. d) example_stream) of
     Panicked \<Rightarrow> False
   | Returned m \<Rightarrow>
       dom m = {''x-ratelimit-limit-requests'', ''x-ratelimit-limit-tokens'',
                ''x-ratelimit-remaining-requests'', ''x-ratelimit-remaining-tokens'',
                ''x-ratelimit-reset-requests'', ''x-ratelimit-reset-tokens''} \<and>
       m ''x-ratelimit-limit-requests'' = Some (CountValue ''60'') \<and>
       m ''x-ratelimit-limit-tokens'' = Some (CountValue []) \<and>
       m ''x-ratelimit-remaining-requests'' = Some (CountValue []) \<and>
       m ''x-ratelimit-remaining-tokens'' = Some (CountValue []) \<and>
       m ''x-ratelimit-reset-requests'' = Some (StringValue ''1s'') \<and>
       m ''x-ratelimit-reset-tokens'' = Some (StringValue [])"
proof -
  let ?r = "streamReader_interface example_decode example_parse example_streamReader"
  have 1: "reader example_stream = Some ?r"
    by (simp add: example_stream_def NewChatCompletionStream_def)
  have 2: "GetRateLimitHeaders_method ?r =
             Some (\<lambda>st. (rateLimits example_parse st, st))"
    by (simp add: streamReader_interface_def)
  have 3: "fst (rateLimits example_parse (self ?r), self ?r) =
             \<lparr>LimitRequests = ''60'', LimitTokens = [], RemainingRequests = [],
              RemainingTokens = [], ResetRequests = ''1s'', ResetTokens = []\<rparr>"
    by (simp add: streamReader_interface_def rateLimits_def example_parse_def
        example_streamReader_def example_headers_def)
  show ?thesis
    using GetRateLimitHeaders_six_keys [OF 1 2, of "\<lambda>d. d"] unfolding 3
    by (simp split: outcome.splits)
qed

text \<open>
  C3. \<open>Recv\<close> of a stream returns exactly the pair of record and error that \<open>Recv\<close> of its
  reader returns, and leaves the reader in the state its own \<open>Recv\<close> left it in. So the
  results of any number of successive calls are the results of the reader's successive
  calls, one for one: no call is retried or skipped, no error replaced, no record changed.
\<close>

theorem Recv_returns_reader_Recv:
  assumes "reader s = Some r"
  shows "fst (Recv s) = Returned (fst (Recv_method r (self r))) \<and>
         reader (snd (Recv s)) = Some (r\<lparr>self := snd (Recv_method r (self r))\<rparr>) \<and>
         Recv_results n s = map Returned (method_results (Recv_method r) n (self r))"
  using assms Recv_Some [OF assms] Recv_results_delegates [OF assms] by simp

theorem Recv_returns_reader_Recv_witness:
  "fst (Recv (NewChatCompletionStream (Some (listReader [record_Hi])))) =
     Returned (record_Hi, None) \<and>
   Recv_results 3 (NewChatCompletionStream (Some (listReader [record_Hi]))) =
     [Returned (record_Hi, None),
      Returned (zero_ChatCompletionStreamResponse, Some EndOfStream),
      Returned (zero_ChatCompletionStreamResponse, Some EndOfStream)]"
proof -
  have 1: "reader (NewChatCompletionStream (Some (listReader [record_Hi]))) =
             Some (listReader [record_Hi])"
    by (simp add: NewChatCompletionStream_def)
  have 2: "method_results (Recv_method (listReader [record_Hi])) 3
             (self (listReader [record_Hi])) =
           [(record_Hi, None), (zero_ChatCompletionStreamResponse, Some EndOfStream),
            (zero_ChatCompletionStreamResponse, Some EndOfStream)]"
    by (simp add: listReader_def numeral_3_eq_3)
  show ?thesis
    using Recv_returns_reader_Recv [OF 1, of 3] unfolding 2
    by (simp add: listReader_def)
qed


lemma GetRateLimitHeaders_pure:
  assumes "reader s = Some r" and "GetRateLimitHeaders_method r = Some g"
    and "g (self r) = (h, self r)"
  shows "GetRateLimitHeaders String s =
           (Returned
              [''x-ratelimit-limit-requests'' \<mapsto> CountValue (LimitRequests h),
               ''x-ratelimit-limit-tokens'' \<mapsto> CountValue (LimitTokens h),
               ''x-ratelimit-remaining-requests'' \<mapsto> CountValue (RemainingRequests h),
               ''x-ratelimit-remaining-tokens'' \<mapsto> CountValue (RemainingTokens h),
               ''x-ratelimit-reset-requests'' \<mapsto> StringValue (String (ResetRequests h)),
               ''x-ratelimit-reset-tokens'' \<mapsto> StringValue (String (ResetTokens h))],
            s)"
proof -
  have "s\<lparr>reader := Some (r\<lparr>self := self r\<rparr>)\<rparr> = s"
    using assms(1) by simp
  then show ?thesis
    using assms by (simp add: GetRateLimitHeaders_def)
qed

lemma after_calls_keeps_captured:
  assumes pure: "\<And>st. g st = (f (captured st), st)"
    and keep: "\<And>st. captured (snd (Recv_method r st)) = captured st"
    and has: "GetRateLimitHeaders_method r = Some g"
  shows "reader s = Some (r\<lparr>self := st\<rparr>) \<Longrightarrow>
         \<exists>st'. reader (after_calls String cs s) = Some (r\<lparr>self := st'\<rparr>) \<and>
               captured st' = captured st"
proof (induction cs arbitrary: s st)
  case Nil
  then have "reader (after_calls String [] s) = Some (r\<lparr>self := st\<rparr>) \<and>
             captured st = captured st"
    by simp
  then show ?case by (rule exI)
next
  case (Cons c cs)
  show ?case
  proof (cases c)
    case CallRecv
    let ?st1 = "snd (Recv_method r st)"
    have "reader (snd (Recv s)) = Some (r\<lparr>self := ?st1\<rparr>)"
      using Recv_Some [OF Cons.prems] by simp
    from Cons.IH [OF this] obtain st' where
      "reader (after_calls String cs (snd (Recv s))) = Some (r\<lparr>self := st'\<rparr>)"
      "captured st' = captured ?st1"
      by blast
    then show ?thesis
      using CallRecv keep by auto
  next
    case CallGetRateLimitHeaders
    have "GetRateLimitHeaders_method (r\<lparr>self := st\<rparr>) = Some g"
      using has by simp
    moreover have "g (self (r\<lparr>self := st\<rparr>)) = (f (captured st), self (r\<lparr>self := st\<rparr>))"
      using pure by simp
    ultimately have "snd (GetRateLimitHeaders String s) = s"
      using GetRateLimitHeaders_pure [OF Cons.prems] by simp
    then show ?thesis
      using CallGetRateLimitHeaders Cons.IH [OF Cons.prems] by simp
  qed
qed

text \<open>
  C4. Let the reader of a stream have a \<open>GetRateLimitHeaders\<close> method that is a pure
  function of the response headers captured in the reader's state (it returns a function
  \<open>f\<close> of them and changes nothing), and let the reader's \<open>Recv\<close> leave the captured
  headers as they are. Then, after any sequence of \<open>Recv\<close> and \<open>GetRateLimitHeaders\<close>
  calls on the stream, \<open>GetRateLimitHeaders\<close> returns the same map as on the fresh
  stream.
\<close>

theorem GetRateLimitHeaders_same_after_calls:
  assumes "reader s = Some r"
    and "GetRateLimitHeaders_method r = Some g"
    and "\<And>st. g st = (f (captured st), st)"
    and "\<And>st. captured (snd (Recv_method r st)) = captured st"
  shows "fst (GetRateLimitHeaders String (after_calls String cs s)) =
         fst (GetRateLimitHeaders String s)"
proof -
  have "reader s = Some (r\<lparr>self := self r\<rparr>)"
    using assms(1) by simp
  from after_calls_keeps_captured [where captured = captured, OF assms(3) assms(4) assms(2) this]
  obtain st' where
    after: "reader (after_calls String cs s) = Some (r\<lparr>self := st'\<rparr>)"
    and same: "captured st' = captured (self r)"
    by blast
  have "GetRateLimitHeaders_method (r\<lparr>self := st'\<rparr>) = Some g"
    using assms(2) by simp
  moreover have "g (self (r\<lparr>self := st'\<rparr>)) =
                   (f (captured (self r)), self (r\<lparr>self := st'\<rparr>))"
    using assms(3) same by simp
  ultimately have "GetRateLimitHeaders String (after_calls String cs s) =
      (Returned
         [''x-ratelimit-limit-requests'' \<mapsto> CountValue (LimitRequests (f (captured (self r)))),
          ''x-ratelimit-limit-tokens'' \<mapsto> CountValue (LimitTokens (f (captured (self r)))),
          ''x-ratelimit-remaining-requests'' \<mapsto>
             CountValue (RemainingRequests (f (captured (self r)))),
          ''x-ratelimit-remaining-tokens'' \<mapsto>
             CountValue (RemainingTokens (f (captured (self r)))),
          ''x-ratelimit-reset-requests'' \<mapsto>
             StringValue (String (ResetRequests (f (captured (self r))))),
          ''x-ratelimit-reset-tokens'' \<mapsto>
             StringValue (String (ResetTokens (f (captured (self r)))))],
       after_calls String cs s)"
    by (rule GetRateLimitHeaders_pure [OF after])
  moreover have "GetRateLimitHeaders String s =
      (Returned
         [''x-ratelimit-limit-requests'' \<mapsto> CountValue (LimitRequests (f (captured (self r)))),
          ''x-ratelimit-limit-tokens'' \<mapsto> CountValue (LimitTokens (f (captured (self r)))),
          ''x-ratelimit-remaining-requests'' \<mapsto>
             CountValue (RemainingRequests (f (captured (self r)))),
          ''x-ratelimit-remaining-tokens'' \<mapsto>
             CountValue (RemainingTokens (f (captured (self r)))),
          ''x-ratelimit-reset-requests'' \<mapsto>
             StringValue (String (ResetRequests (f (captured (self r))))),
          ''x-ratelimit-reset-tokens'' \<mapsto>
             StringValue (String (ResetTokens (f (captured (self r)))))],
       s)"
    by (rule GetRateLimitHeaders_pure [OF assms(1) assms(2) assms(3)])
  ultimately show ?thesis
    by simp
qed

lemma streamReader_Recv_keeps_headers:
  "initial_headers (snd (streamReader_Recv decode st)) = initial_headers st"
  by (simp add: streamReader_Recv_def receive_def
      split: stream_state.splits prod.splits frame.splits option.splits sum.splits)

theorem GetRateLimitHeaders_same_after_calls_witness:
  "fst (GetRateLimitHeaders (\<lambda>d. d)
          (after_calls (\<lambda>d. d)
             [CallRecv, CallGetRateLimitHeaders, CallRecv, CallRecv, CallRecv]
             example_stream)) =
   fst (GetRateLimitHeaders (\<lambda>d. d) example_stream)"
proof -
  let ?r = "streamReader_interface example_decode example_parse example_streamReader"
  have 1: "reader example_stream = Some ?r"
    by (simp add: example_stream_def NewChatCompletionStream_def)
  have 2: "GetRateLimitHeaders_method ?r =
             Some (\<lambda>st. (rateLimits example_parse st, st))"
    by (simp add: streamReader_interface_def)
  have 3: "\<And>st. (\<lambda>st. (rateLimits example_parse st, st)) st =
             (example_parse (initial_headers st), st)"
    by (simp add: rateLimits_def)
  have 4: "\<And>st. initial_headers (snd (Recv_method ?r st)) = initial_headers st"
    by (simp add: streamReader_interface_def streamReader_Recv_keeps_headers)
  show ?thesis
    using GetRateLimitHeaders_same_after_calls
      [where f = example_parse and captured = initial_headers, OF 1 2 3 4] .
qed

lemma method_results_fixed:
  "m st = (v, st) \<Longrightarrow> method_results m n st = replicate n v"
  by (induction n) simp_all

text \<open>
  C5, as the claim states it, fails on both counts. With a reader whose \<open>Close\<close> releases
  nothing and answers a second call with an error (a reader a caller may inject), \<open>Recv\<close>
  after \<open>Close\<close> returns the record that the reader still held, with a \<open>nil\<close> error,
  and the second \<open>Close\<close> of the stream neither returns what the first returned nor
  leaves the stream as the first left it.
\<close>

theorem Recv_after_Close_counterexample:
  "fst (Recv (snd (Close (NewChatCompletionStream (Some (countingReader [record_Hi])))))) =
     Returned (record_Hi, None) \<and>
   fst (Close (NewChatCompletionStream (Some (countingReader [record_Hi])))) =
     Returned None \<and>
   fst (Close (snd (Close (NewChatCompletionStream (Some (countingReader [record_Hi])))))) =
     Returned (Some (OtherError ''already closed'')) \<and>
   snd (Close (snd (Close (NewChatCompletionStream (Some (countingReader [record_Hi])))))) \<noteq>
     snd (Close (NewChatCompletionStream (Some (countingReader [record_Hi]))))"
  by (simp add: Recv_def Close_def NewChatCompletionStream_def countingReader_def)

text \<open>
  C5, amended. \<open>Close\<close> of a stream calls \<open>Close\<close> of its reader once, returns its error
  and changes nothing but the reader's state; the stream keeps no closed state of its own.
  A second \<open>Close\<close> calls the reader's \<open>Close\<close> again, so \<open>Close\<close> of the stream is
  idempotent exactly when the reader's \<open>Close\<close> is. Every \<open>Recv\<close> of the stream after
  \<open>Close\<close> returns exactly what the reader's \<open>Recv\<close> returns after its \<open>Close\<close>,
  whatever the reader: when that is a "stream closed" error \<open>e\<close> of a reader that stays
  closed, every \<open>Recv\<close> of the stream after \<open>Close\<close> returns \<open>e\<close>.
\<close>

theorem Close_as_good_as_reader:
  assumes "reader s = Some r"
  shows "Close s =
           (Returned (fst (Close_method r (self r))),
            s\<lparr>reader := Some (r\<lparr>self := snd (Close_method r (self r))\<rparr>)\<rparr>) \<and>
         Close (snd (Close s)) =
           (Returned (fst (Close_method r (snd (Close_method r (self r))))),
            s\<lparr>reader :=
                Some (r\<lparr>self := snd (Close_method r (snd (Close_method r (self r))))\<rparr>)\<rparr>) \<and>
         (snd (Close (snd (Close s))) = snd (Close s) \<longleftrightarrow>
            snd (Close_method r (snd (Close_method r (self r)))) =
              snd (Close_method r (self r))) \<and>
         Recv (snd (Close s)) =
           (Returned (fst (Recv_method r (snd (Close_method r (self r))))),
            s\<lparr>reader :=
                Some (r\<lparr>self := snd (Recv_method r (snd (Close_method r (self r))))\<rparr>)\<rparr>) \<and>
         Recv_results n (snd (Close s)) =
           map Returned (method_results (Recv_method r) n (snd (Close_method r (self r)))) \<and>
         (Recv_method r (snd (Close_method r (self r))) =
            ((z, Some e), snd (Close_method r (self r))) \<longrightarrow>
          Recv_results n (snd (Close s)) = replicate n (Returned (z, Some e)))"
proof -
  let ?st = "snd (Close_method r (self r))"
  let ?r' = "r\<lparr>self := ?st\<rparr>"
  let ?s' = "s\<lparr>reader := Some ?r'\<rparr>"
  have closed: "Close s = (Returned (fst (Close_method r (self r))), ?s')"
    using assms by (rule Close_Some)
  have r': "reader ?s' = Some ?r'"
    by simp
  have again: "Close ?s' =
      (Returned (fst (Close_method r ?st)),
       s\<lparr>reader := Some (r\<lparr>self := snd (Close_method r ?st)\<rparr>)\<rparr>)"
    using Close_Some [OF r'] by simp
  have idem: "snd (Close ?s') = ?s' \<longleftrightarrow> snd (Close_method r ?st) = ?st"
  proof
    assume "snd (Close ?s') = ?s'"
    then have "reader (snd (Close ?s')) = reader ?s'"
      by simp
    then have "self (r\<lparr>self := snd (Close_method r ?st)\<rparr>) = self ?r'"
      unfolding again by simp
    then show "snd (Close_method r ?st) = ?st"
      by simp
  next
    assume "snd (Close_method r ?st) = ?st"
    then show "snd (Close ?s') = ?s'"
      unfolding again by simp
  qed
  have recv: "Recv ?s' =
      (Returned (fst (Recv_method r ?st)),
       s\<lparr>reader := Some (r\<lparr>self := snd (Recv_method r ?st)\<rparr>)\<rparr>)"
    using Recv_Some [OF r'] by simp
  have results: "Recv_results n ?s' = map Returned (method_results (Recv_method r) n ?st)"
    using Recv_results_delegates [OF r', of n] by simp
  have stays: "Recv_results n ?s' = replicate n (Returned (z, Some e))"
    if "Recv_method r ?st = ((z, Some e), ?st)"
    using results that
      method_results_fixed [of "Recv_method r" "snd (Close_method r (self r))" "(z, Some e)" n]
    by simp
  show ?thesis
    unfolding closed snd_conv
    using again idem recv results stays by blast
qed

lemma close_close: "close (close st) = close st"
  by (simp add: close_def)

lemma streamReader_Recv_closed:
  "streamReader_Recv decode (close st) =
     ((zero_ChatCompletionStreamResponse, Some ClosedStreamError), close st)"
  by (simp add: streamReader_Recv_def receive_def close_def)

theorem Close_as_good_as_reader_witness:
  "fst (Close example_stream) = Returned None \<and>
   snd (Close (snd (Close example_stream))) = snd (Close example_stream) \<and>
   Recv_results 2 (snd (Close example_stream)) =
     [Returned (zero_ChatCompletionStreamResponse, Some ClosedStreamError),
      Returned (zero_ChatCompletionStreamResponse, Some ClosedStreamError)] \<and>
   Recv_results 2 (snd (Close (NewChatCompletionStream (Some (countingReader [record_Hi]))))) =
     [Returned (record_Hi, None),
      Returned (zero_ChatCompletionStreamResponse, Some EndOfStream)]"
proof -
  let ?r = "streamReader_interface example_decode example_parse example_streamReader"
  have 1: "reader example_stream = Some ?r"
    by (simp add: example_stream_def NewChatCompletionStream_def)
  have 2: "snd (Close_method ?r (snd (Close_method ?r (self ?r)))) =
           snd (Close_method ?r (self ?r))"
    by (simp add: streamReader_interface_def close_close)
  have 3: "Recv_method ?r (snd (Close_method ?r (self ?r))) =
             ((zero_ChatCompletionStreamResponse, Some ClosedStreamError),
              snd (Close_method ?r (self ?r)))"
    by (simp add: streamReader_interface_def streamReader_Recv_closed)
  have 4: "fst (Close_method ?r (self ?r)) = None"
    by (simp add: streamReader_interface_def)
  have 5: "reader (NewChatCompletionStream (Some (countingReader [record_Hi]))) =
             Some (countingReader [record_Hi])"
    by (simp add: NewChatCompletionStream_def)
  have 6: "method_results (Recv_method (countingReader [record_Hi])) 2
             (snd (Close_method (countingReader [record_Hi])
                     (self (countingReader [record_Hi])))) =
           [(record_Hi, None), (zero_ChatCompletionStreamResponse, Some EndOfStream)]"
    by (simp add: countingReader_def numeral_2_eq_2)
  note at_example =
    Close_as_good_as_reader [OF 1, of 2 zero_ChatCompletionStreamResponse ClosedStreamError]
  note at_counting = Close_as_good_as_reader [OF 5, of 2]
  have a: "fst (Close example_stream) = Returned None"
    using at_example [THEN conjunct1] 4 by simp
  have b: "snd (Close (snd (Close example_stream))) = snd (Close example_stream)"
    using at_example [THEN conjunct2, THEN conjunct2, THEN conjunct1] 2 by blast
  have "Recv_results 2 (snd (Close example_stream)) =
          replicate 2 (Returned (zero_ChatCompletionStreamResponse, Some ClosedStreamError))"
    using at_example [THEN conjunct2, THEN conjunct2, THEN conjunct2, THEN conjunct2,
        THEN conjunct2] 3 by blast
  then have c: "Recv_results 2 (snd (Close example_stream)) =
     [Returned (zero_ChatCompletionStreamResponse, Some ClosedStreamError),
      Returned (zero_ChatCompletionStreamResponse, Some ClosedStreamError)]"
    by (simp add: numeral_2_eq_2)
  have d: "Recv_results 2
             (snd (Close (NewChatCompletionStream (Some (countingReader [record_Hi]))))) =
           [Returned (record_Hi, None),
            Returned (zero_ChatCompletionStreamResponse, Some EndOfStream)]"
    using at_counting [THEN conjunct2, THEN conjunct2, THEN conjunct2, THEN conjunct2,
        THEN conjunct1]
    unfolding 6 by simp
  show ?thesis
    using a b c d by blast
qed

lemma streamReader_Recv_skip:
  "state r = Open \<Longrightarrow> \<not> has_data_prefix x \<Longrightarrow> body r = x # b \<Longrightarrow>
   streamReader_Recv decode r = streamReader_Recv decode (r\<lparr>body := b\<rparr>)"
  by (simp add: streamReader_Recv_def receive_def
      split: prod.splits frame.splits option.splits)

lemma streamReader_Recv_record:
  "state r = Open \<Longrightarrow> has_data_prefix x \<Longrightarrow> payload x \<noteq> sentinel \<Longrightarrow>
   decode (payload x) = Some v \<Longrightarrow> body r = x # b \<Longrightarrow>
   streamReader_Recv decode r = ((v, None), r\<lparr>body := b\<rparr>)"
  by (simp add: streamReader_Recv_def receive_def)

lemma streamReader_Recv_sentinel:
  "state r = Open \<Longrightarrow> has_data_prefix x \<Longrightarrow> payload x = sentinel \<Longrightarrow> body r = x # b \<Longrightarrow>
   streamReader_Recv decode r =
     ((zero_ChatCompletionStreamResponse, Some EndOfStream), r\<lparr>state := Done, body := b\<rparr>)"
  by (simp add: streamReader_Recv_def receive_def)

lemma streamReader_Recv_Done:
  "state r = Done \<Longrightarrow>
   streamReader_Recv decode r = ((zero_ChatCompletionStreamResponse, Some EndOfStream), r)"
  by (simp add: streamReader_Recv_def receive_def)

lemma method_results_same_step:
  "m st = m st' \<Longrightarrow> method_results m (Suc n) st = method_results m (Suc n) st'"
  by simp

lemma streamReader_records_then_end:
  assumes valid: "\<forall>x\<in>set pre. has_data_prefix x \<longrightarrow>
                    payload x \<noteq> sentinel \<and> decode (payload x) \<noteq> None"
    and l: "has_data_prefix l" "payload l = sentinel"
  shows "state r = Open \<Longrightarrow> body r = pre @ l # post \<Longrightarrow>
         method_results (streamReader_Recv decode)
           (length (filter has_data_prefix pre) + Suc j) r =
         map (\<lambda>x. (the (decode (payload x)), None)) (filter has_data_prefix pre) @
         replicate (Suc j) (zero_ChatCompletionStreamResponse, Some EndOfStream)"
  using valid
proof (induction pre arbitrary: r)
  case Nil
  let ?r' = "r\<lparr>state := Done, body := post\<rparr>"
  have step: "streamReader_Recv decode r =
          ((zero_ChatCompletionStreamResponse, Some EndOfStream), ?r')"
    using Nil.prems l by (simp add: streamReader_Recv_sentinel)
  have "method_results (streamReader_Recv decode) j ?r' =
          replicate j (zero_ChatCompletionStreamResponse, Some EndOfStream)"
    by (rule method_results_fixed) (simp add: streamReader_Recv_Done)
  then show ?case
    by (simp add: step)
next
  case (Cons x pre)
  let ?r' = "r\<lparr>body := pre @ l # post\<rparr>"
  let ?k = "length (filter has_data_prefix pre)"
  have IH: "method_results (streamReader_Recv decode) (?k + Suc j) ?r' =
         map (\<lambda>x. (the (decode (payload x)), None)) (filter has_data_prefix pre) @
         replicate (Suc j) (zero_ChatCompletionStreamResponse, Some EndOfStream)"
    using Cons.prems by (intro Cons.IH) simp_all
  show ?case
  proof (cases "has_data_prefix x")
    case True
    then obtain v where v: "decode (payload x) = Some v" and ns: "payload x \<noteq> sentinel"
      using Cons.prems(3) by auto
    have step: "streamReader_Recv decode r = ((v, None), ?r')"
      using Cons.prems(1,2) True ns v by (simp add: streamReader_Recv_record)
    show ?thesis
      using IH True v by (simp add: step)
  next
    case False
    have "streamReader_Recv decode r = streamReader_Recv decode ?r'"
      using Cons.prems(1,2) False by (simp add: streamReader_Recv_skip)
    then have "method_results (streamReader_Recv decode) (Suc (?k + j)) r =
               method_results (streamReader_Recv decode) (Suc (?k + j)) ?r'"
      by (rule method_results_same_step)
    then show ?thesis
      using IH False by simp
  qed
qed

text \<open>
  C6. Let the body of the response hold, from where the reader stands, any lines of which
  every data line carries a payload that is not the sentinel and that decodes, then a data
  line whose trimmed payload is \<open>[DONE]\<close>, then anything. On a stream over the open
  reader, the successive calls of \<open>Recv\<close> return the records of those data lines in
  order, one each, and from the next call on the end-of-stream signal with the zero record:
  whatever the number of records before the sentinel, and whatever the decoder would make of
  the sentinel or of the lines after it, no record is returned for them.
\<close>

theorem sentinel_yields_EndOfStream:
  assumes "reader s = Some (streamReader_interface decode parse r)"
    and "state r = Open"
    and "body r = pre @ l # post"
    and "\<forall>x\<in>set pre. has_data_prefix x \<longrightarrow>
           payload x \<noteq> sentinel \<and> decode (payload x) \<noteq> None"
    and "has_data_prefix l" and "payload l = sentinel"
  shows "Recv_results (length (filter has_data_prefix pre) + Suc j) s =
           map (\<lambda>x. Returned (the (decode (payload x)), None)) (filter has_data_prefix pre) @
           replicate (Suc j) (Returned (zero_ChatCompletionStreamResponse, Some EndOfStream))"
proof -
  let ?n = "length (filter has_data_prefix pre) + Suc j"
  have "Recv_results ?n s =
          map Returned (method_results (streamReader_Recv decode) ?n r)"
    using Recv_results_delegates [OF assms(1), of ?n]
    by (simp add: streamReader_interface_def)
  also have "method_results (streamReader_Recv decode) ?n r =
         map (\<lambda>x. (the (decode (payload x)), None)) (filter has_data_prefix pre) @
         replicate (Suc j) (zero_ChatCompletionStreamResponse, Some EndOfStream)"
    using assms(4) assms(5) assms(6) assms(2) assms(3)
    by (rule streamReader_records_then_end)
  finally show ?thesis
    by (simp add: comp_def)
qed

lemma example_lines:
  "\<not> has_data_prefix '': keep-alive''"
  "\<not> has_data_prefix []"
  "has_data_prefix ''data: {\"id\":\"1\"}''"
  "has_data_prefix ''data: {\"id\":\"2\"}''"
  "has_data_prefix ''data: [DONE]''"
  "payload ''data: {\"id\":\"1\"}'' = ''{\"id\":\"1\"}''"
  "payload ''data: {\"id\":\"2\"}'' = ''{\"id\":\"2\"}''"
  "payload ''data: [DONE]'' = ''[DONE]''"
  by (simp_all add: has_data_prefix_def payload_def trim_def data_prefix_def is_space_def)

theorem sentinel_yields_EndOfStream_witness:
  "Recv_results 4 example_stream =
     [Returned (zero_ChatCompletionStreamResponse
                  \<lparr>ChatCompletionStreamResponse.ID := ''{\"id\":\"1\"}''\<rparr>, None),
      Returned (zero_ChatCompletionStreamResponse
                  \<lparr>ChatCompletionStreamResponse.ID := ''{\"id\":\"2\"}''\<rparr>, None),
      Returned (zero_ChatCompletionStreamResponse, Some EndOfStream),
      Returned (zero_ChatCompletionStreamResponse, Some EndOfStream)]"
proof -
  let ?pre = "['': keep-alive'', ''data: {\"id\":\"1\"}'', [], ''data: {\"id\":\"2\"}'']"
  have 1: "reader example_stream =
             Some (streamReader_interface example_decode example_parse example_streamReader)"
    by (simp add: example_stream_def NewChatCompletionStream_def)
  have 2: "state example_streamReader = Open"
    by (simp add: example_streamReader_def)
  have 3: "body example_streamReader = ?pre @ ''data: [DONE]'' # [''data: {\"id\":\"3\"}'']"
    by (simp add: example_streamReader_def)
  have 4: "\<forall>x\<in>set ?pre. has_data_prefix x \<longrightarrow>
             payload x \<noteq> sentinel \<and> example_decode (payload x) \<noteq> None"
    by (simp add: example_lines sentinel_def example_decode_def)
  have 5: "has_data_prefix ''data: [DONE]''"
    by (simp add: example_lines)
  have 6: "payload ''data: [DONE]'' = sentinel"
    by (simp add: example_lines sentinel_def)
  show ?thesis
    using sentinel_yields_EndOfStream [OF 1 2 3 4 5 6, of 1]
    by (simp add: example_lines example_decode_def eval_nat_numeral)
qed


section \<open>Properties of \<open>CreateChatCompletionStream\<close>\<close>

text \<open>
  C7, as the claim states it, fails: \<open>CreateChatCompletionStream\<close> asks
  \<open>checkEndpointSupportsModel\<close> about the model name first. With a check that rejects
  one model name, two requests that differ in the model name alone fare differently: one is
  refused with \<open>ErrChatCompletionInvalidModel\<close>, the other opens a stream.
\<close>

theorem model_name_counterexample:
  "CreateChatCompletionStream example_Package example_stream_Client ()
     \<lparr>ChatCompletionRequest.Model = ''code-davinci-002'', Stream = True\<rparr> =
     \<lparr>stream = None, err = Some ErrChatCompletionInvalidModel, calls = []\<rparr> \<and>
   CreateResult.err
     (CreateChatCompletionStream example_Package example_stream_Client ()
        \<lparr>ChatCompletionRequest.Model = ''gpt-4'', Stream = True\<rparr>) = None"
  by (simp add: CreateChatCompletionStream_def Let_def example_Package_def
      example_stream_Client_def)

text \<open>
  C7, amended. \<open>CreateChatCompletionStream\<close> validates the model name itself, with
  \<open>checkEndpointSupportsModel\<close> for the chat completions endpoint. When the check rejects
  the model name, the call returns a nil stream and \<open>ErrChatCompletionInvalidModel\<close>, and
  no request is built or sent. When the check accepts it, the call does not fail at this
  check: it goes on to the reasoning validator, and only an error of the validator can end
  it before a request is built.
\<close>

theorem CreateChatCompletionStream_validates_model:
  "(\<not> checkEndpointSupportsModel pkg (chatCompletionsSuffix pkg)
        (ChatCompletionRequest.Model request) \<longrightarrow>
      CreateChatCompletionStream pkg c ctx request =
        \<lparr>stream = None, err = Some ErrChatCompletionInvalidModel, calls = []\<rparr>) \<and>
   (checkEndpointSupportsModel pkg (chatCompletionsSuffix pkg)
        (ChatCompletionRequest.Model request) \<longrightarrow>
      (case ReasoningValidator_Validate pkg (request\<lparr>Stream := True\<rparr>) of
         Some e \<Rightarrow>
           CreateChatCompletionStream pkg c ctx request =
             \<lparr>stream = None, err = Some e, calls = []\<rparr>
       | None \<Rightarrow>
           hd (CreateResult.calls (CreateChatCompletionStream pkg c ctx request)) =
             BuiltRequest (fullURL c (chatCompletionsSuffix pkg)
                             (ChatCompletionRequest.Model request))))"
  by (simp add: CreateChatCompletionStream_def Let_def split: option.splits sum.splits)

theorem CreateChatCompletionStream_validates_model_witness:
  "CreateChatCompletionStream example_Package example_stream_Client ()
     \<lparr>ChatCompletionRequest.Model = ''code-davinci-002'', Stream = False\<rparr> =
     \<lparr>stream = None, err = Some ErrChatCompletionInvalidModel, calls = []\<rparr> \<and>
   hd (CreateResult.calls
         (CreateChatCompletionStream example_Package example_stream_Client ()
            \<lparr>ChatCompletionRequest.Model = ''gpt-4'', Stream = False\<rparr>)) =
     BuiltRequest ''https://api.openai.com/v1/chat/completions''"
  using CreateChatCompletionStream_validates_model
      [where pkg = example_Package and c = example_stream_Client and ctx = "()"
         and request = "\<lparr>ChatCompletionRequest.Model = ''code-davinci-002'', Stream = False\<rparr>"]
    CreateChatCompletionStream_validates_model
      [where pkg = example_Package and c = example_stream_Client and ctx = "()"
         and request = "\<lparr>ChatCompletionRequest.Model = ''gpt-4'', Stream = False\<rparr>"]
  by (simp add: example_Package_def example_stream_Client_def)

text \<open>
  C8. \<open>CreateChatCompletionStream\<close> sets \<open>Stream\<close> of the request to true whatever the
  caller supplied: the result does not depend on the caller's value, and a request that is
  sent was built by \<open>newRequest\<close> from the body with \<open>Stream\<close> true. When the model is
  unsupported, when the reasoning validator rejects the request, or when \<open>newRequest\<close>
  fails, the call returns a nil stream together with that error, and no request was sent.
\<close>

theorem CreateChatCompletionStream_sets_Stream_and_fails_early:
  "CreateChatCompletionStream pkg c ctx (request\<lparr>Stream := b\<rparr>) =
     CreateChatCompletionStream pkg c ctx request \<and>
   (\<forall>req. SentRequest req \<in> set (CreateResult.calls (CreateChatCompletionStream pkg c ctx request))
      \<longrightarrow>
      newRequest c ctx MethodPost
        (fullURL c (chatCompletionsSuffix pkg) (ChatCompletionRequest.Model request))
        (request\<lparr>Stream := True\<rparr>) = Inr req) \<and>
   (\<not> checkEndpointSupportsModel pkg (chatCompletionsSuffix pkg)
        (ChatCompletionRequest.Model request) \<longrightarrow>
      CreateChatCompletionStream pkg c ctx request =
        \<lparr>stream = None, err = Some ErrChatCompletionInvalidModel, calls = []\<rparr>) \<and>
   (checkEndpointSupportsModel pkg (chatCompletionsSuffix pkg)
        (ChatCompletionRequest.Model request) \<and>
    ReasoningValidator_Validate pkg (request\<lparr>Stream := True\<rparr>) = Some e \<longrightarrow>
      CreateChatCompletionStream pkg c ctx request =
        \<lparr>stream = None, err = Some e, calls = []\<rparr>) \<and>
   (checkEndpointSupportsModel pkg (chatCompletionsSuffix pkg)
        (ChatCompletionRequest.Model request) \<and>
    ReasoningValidator_Validate pkg (request\<lparr>Stream := True\<rparr>) = None \<and>
    newRequest c ctx MethodPost
      (fullURL c (chatCompletionsSuffix pkg) (ChatCompletionRequest.Model request))
      (request\<lparr>Stream := True\<rparr>) = Inl e' \<longrightarrow>
      CreateChatCompletionStream pkg c ctx request =
        \<lparr>stream = None, err = Some e',
         calls = [BuiltRequest (fullURL c (chatCompletionsSuffix pkg)
                                  (ChatCompletionRequest.Model request))]\<rparr>)"
  by (simp add: CreateChatCompletionStream_def Let_def split: option.splits sum.splits)

theorem CreateChatCompletionStream_sets_Stream_and_fails_early_witness:
  "CreateChatCompletionStream example_Package example_stream_Client ()
     \<lparr>ChatCompletionRequest.Model = ''code-davinci-002'', Stream = False\<rparr> =
     \<lparr>stream = None, err = Some ErrChatCompletionInvalidModel, calls = []\<rparr> \<and>
   CreateChatCompletionStream
     (example_Package\<lparr>ReasoningValidator_Validate :=
        (\<lambda>request. if Stream request then Some (OtherError ''max_tokens'') else None)\<rparr>)
     example_stream_Client ()
     \<lparr>ChatCompletionRequest.Model = ''o1'', Stream = False\<rparr> =
     \<lparr>stream = None, err = Some (OtherError ''max_tokens''), calls = []\<rparr> \<and>
   CreateChatCompletionStream example_Package
     (example_stream_Client\<lparr>newRequest :=
        (\<lambda>ctx method url body. Inl (OtherError ''context canceled''))\<rparr>) ()
     \<lparr>ChatCompletionRequest.Model = ''gpt-4'', Stream = False\<rparr> =
     \<lparr>stream = None, err = Some (OtherError ''context canceled''),
      calls = [BuiltRequest ''https://api.openai.com/v1/chat/completions'']\<rparr> \<and>
   CreateChatCompletionStream example_Package
     (example_stream_Client\<lparr>newRequest :=
        (\<lambda>ctx method url body. if Stream body then Inr ''streaming'' else Inr ''plain'')\<rparr>) ()
     \<lparr>ChatCompletionRequest.Model = ''gpt-4'', Stream = False\<rparr> =
     \<lparr>stream = Some example_stream, err = None,
      calls = [BuiltRequest ''https://api.openai.com/v1/chat/completions'',
               SentRequest ''streaming'']\<rparr>"
  using CreateChatCompletionStream_sets_Stream_and_fails_early
      [where pkg = example_Package and c = example_stream_Client and ctx = "()"
         and request = "\<lparr>ChatCompletionRequest.Model = ''code-davinci-002'', Stream = False\<rparr>"]
    CreateChatCompletionStream_sets_Stream_and_fails_early
      [where pkg = "example_Package\<lparr>ReasoningValidator_Validate :=
             (\<lambda>request. if Stream request then Some (OtherError ''max_tokens'') else None)\<rparr>"
         and c = example_stream_Client and ctx = "()"
         and request = "\<lparr>ChatCompletionRequest.Model = ''o1'', Stream = False\<rparr>"
         and e = "OtherError ''max_tokens''"]
    CreateChatCompletionStream_sets_Stream_and_fails_early
      [where pkg = example_Package
         and c = "example_stream_Client\<lparr>newRequest :=
             (\<lambda>ctx method url body. Inl (OtherError ''context canceled''))\<rparr>"
         and ctx = "()"
         and request = "\<lparr>ChatCompletionRequest.Model = ''gpt-4'', Stream = False\<rparr>"
         and e' = "OtherError ''context canceled''"]
  by (simp add: CreateChatCompletionStream_def Let_def example_Package_def
      example_stream_Client_def example_stream_def NewChatCompletionStream_def MethodPost_def)

end
